theory Spec2Isabelle
  imports Complex_Main
begin

section \<open>Property-set extraction from an IFC model (psets.py)\<close>

text \<open>
  The module reads entities of a loaded IFC model through attribute access and the
  type-tag predicate \<open>is_a\<close>, and flattens them into Python dictionaries. The model
  below keeps the entity classes the code tests for, makes every attribute read a
  function that fails with \<open>AttributeError\<close> on an entity of a class without that
  attribute, and makes every dictionary a finite map.
\<close>

subsection \<open>Python values, faults and dictionaries\<close>

datatype error = AttributeError | TypeError

text \<open>
  The scalars the records hold. The code only carries them from a record into a
  dictionary and never computes with them, so a float is given by the real it stands
  for.
\<close>

datatype pyval = PyNone | PyStr string | PyInt int | PyFloat real | PyBool bool

text \<open>
  A dictionary key is either the tuple \<open>(x.Name, y.Name)\<close> of a set name (optional in
  the schema, so possibly \<open>None\<close>) and a record name, or a plain string. A dictionary
  is the map from its keys to their values: the claims are about which keys it holds
  and what they map to, not about the order of insertion.
\<close>

datatype key = PairKey "string option" string | StrKey string

type_synonym dict = "key \<rightharpoonup> pyval"

definition bind_err :: "error + 'a \<Rightarrow> ('a \<Rightarrow> error + 'b) \<Rightarrow> error + 'b" where
  "bind_err m f = (case m of Inl e \<Rightarrow> Inl e | Inr a \<Rightarrow> f a)"

text \<open>\<open>"TypeDefinition_" + x.Name\<close>: adding \<open>None\<close> to a string raises \<open>TypeError\<close>.\<close>

fun str_add :: "string \<Rightarrow> string option \<Rightarrow> error + string" where
  "str_add s None = Inl TypeError"
| "str_add s (Some t) = Inr (s @ t)"

subsection \<open>Entities of the document model\<close>

text \<open>
  Property records. Beside the two kinds the flattener handles, the five kinds of the
  module's TODO line are kept: they carry a name and no \<open>NominalValue\<close>.
\<close>

datatype ifc_property =
    IfcPropertySingleValue string "pyval option"
  | IfcComplexProperty string "ifc_property list"
  | IfcPropertyEnumeratedValue string
  | IfcPropertyBoundedValue string
  | IfcPropertyTableValue string
  | IfcPropertyReferenceValue string
  | IfcPropertyListValue string

fun property_class :: "ifc_property \<Rightarrow> string" where
  "property_class (IfcPropertySingleValue n v) = ''IfcPropertySingleValue''"
| "property_class (IfcComplexProperty n zs) = ''IfcComplexProperty''"
| "property_class (IfcPropertyEnumeratedValue n) = ''IfcPropertyEnumeratedValue''"
| "property_class (IfcPropertyBoundedValue n) = ''IfcPropertyBoundedValue''"
| "property_class (IfcPropertyTableValue n) = ''IfcPropertyTableValue''"
| "property_class (IfcPropertyReferenceValue n) = ''IfcPropertyReferenceValue''"
| "property_class (IfcPropertyListValue n) = ''IfcPropertyListValue''"

text \<open>
  \<open>y.is_a(tag)\<close>. The model keeps one class for each tag the code asks for, so the
  test is equality with the entity's class; an entity of a subclass of a tested
  class is given as an entity of that class.
\<close>

definition property_is_a :: "ifc_property \<Rightarrow> string \<Rightarrow> bool" where
  "property_is_a y t = (property_class y = t)"

fun property_Name :: "ifc_property \<Rightarrow> string" where
  "property_Name (IfcPropertySingleValue n v) = n"
| "property_Name (IfcComplexProperty n zs) = n"
| "property_Name (IfcPropertyEnumeratedValue n) = n"
| "property_Name (IfcPropertyBoundedValue n) = n"
| "property_Name (IfcPropertyTableValue n) = n"
| "property_Name (IfcPropertyReferenceValue n) = n"
| "property_Name (IfcPropertyListValue n) = n"

text \<open>
  \<open>y.NominalValue\<close>: \<open>None\<close> or a value entity, given here by its \<open>wrappedValue\<close>.
  Only a single value has the attribute.
\<close>

fun NominalValue :: "ifc_property \<Rightarrow> error + pyval option" where
  "NominalValue (IfcPropertySingleValue n v) = Inr v"
| "NominalValue (IfcComplexProperty n zs) = Inl AttributeError"
| "NominalValue (IfcPropertyEnumeratedValue n) = Inl AttributeError"
| "NominalValue (IfcPropertyBoundedValue n) = Inl AttributeError"
| "NominalValue (IfcPropertyTableValue n) = Inl AttributeError"
| "NominalValue (IfcPropertyReferenceValue n) = Inl AttributeError"
| "NominalValue (IfcPropertyListValue n) = Inl AttributeError"

fun property_HasProperties :: "ifc_property \<Rightarrow> error + ifc_property list" where
  "property_HasProperties (IfcComplexProperty n zs) = Inr zs"
| "property_HasProperties (IfcPropertySingleValue n v) = Inl AttributeError"
| "property_HasProperties (IfcPropertyEnumeratedValue n) = Inl AttributeError"
| "property_HasProperties (IfcPropertyBoundedValue n) = Inl AttributeError"
| "property_HasProperties (IfcPropertyTableValue n) = Inl AttributeError"
| "property_HasProperties (IfcPropertyReferenceValue n) = Inl AttributeError"
| "property_HasProperties (IfcPropertyListValue n) = Inl AttributeError"

text \<open>
  Quantity records: the five kinds the flattener dispatches on, and the time quantity
  of the schema, which it does not know. A scalar field may hold \<open>None\<close>.
\<close>

datatype ifc_quantity =
    IfcQuantityArea string pyval
  | IfcQuantityLength string pyval
  | IfcQuantityVolume string pyval
  | IfcQuantityCount string pyval
  | IfcQuantityWeight string pyval
  | IfcQuantityTime string pyval

fun quantity_class :: "ifc_quantity \<Rightarrow> string" where
  "quantity_class (IfcQuantityArea n v) = ''IfcQuantityArea''"
| "quantity_class (IfcQuantityLength n v) = ''IfcQuantityLength''"
| "quantity_class (IfcQuantityVolume n v) = ''IfcQuantityVolume''"
| "quantity_class (IfcQuantityCount n v) = ''IfcQuantityCount''"
| "quantity_class (IfcQuantityWeight n v) = ''IfcQuantityWeight''"
| "quantity_class (IfcQuantityTime n v) = ''IfcQuantityTime''"

definition quantity_is_a :: "ifc_quantity \<Rightarrow> string \<Rightarrow> bool" where
  "quantity_is_a y t = (quantity_class y = t)"

fun quantity_Name :: "ifc_quantity \<Rightarrow> string" where
  "quantity_Name (IfcQuantityArea n v) = n"
| "quantity_Name (IfcQuantityLength n v) = n"
| "quantity_Name (IfcQuantityVolume n v) = n"
| "quantity_Name (IfcQuantityCount n v) = n"
| "quantity_Name (IfcQuantityWeight n v) = n"
| "quantity_Name (IfcQuantityTime n v) = n"

fun AreaValue :: "ifc_quantity \<Rightarrow> error + pyval" where
  "AreaValue (IfcQuantityArea n v) = Inr v"
| "AreaValue (IfcQuantityLength n v) = Inl AttributeError"
| "AreaValue (IfcQuantityVolume n v) = Inl AttributeError"
| "AreaValue (IfcQuantityCount n v) = Inl AttributeError"
| "AreaValue (IfcQuantityWeight n v) = Inl AttributeError"
| "AreaValue (IfcQuantityTime n v) = Inl AttributeError"

fun LengthValue :: "ifc_quantity \<Rightarrow> error + pyval" where
  "LengthValue (IfcQuantityLength n v) = Inr v"
| "LengthValue (IfcQuantityArea n v) = Inl AttributeError"
| "LengthValue (IfcQuantityVolume n v) = Inl AttributeError"
| "LengthValue (IfcQuantityCount n v) = Inl AttributeError"
| "LengthValue (IfcQuantityWeight n v) = Inl AttributeError"
| "LengthValue (IfcQuantityTime n v) = Inl AttributeError"

fun VolumeValue :: "ifc_quantity \<Rightarrow> error + pyval" where
  "VolumeValue (IfcQuantityVolume n v) = Inr v"
| "VolumeValue (IfcQuantityArea n v) = Inl AttributeError"
| "VolumeValue (IfcQuantityLength n v) = Inl AttributeError"
| "VolumeValue (IfcQuantityCount n v) = Inl AttributeError"
| "VolumeValue (IfcQuantityWeight n v) = Inl AttributeError"
| "VolumeValue (IfcQuantityTime n v) = Inl AttributeError"

fun CountValue :: "ifc_quantity \<Rightarrow> error + pyval" where
  "CountValue (IfcQuantityCount n v) = Inr v"
| "CountValue (IfcQuantityArea n v) = Inl AttributeError"
| "CountValue (IfcQuantityLength n v) = Inl AttributeError"
| "CountValue (IfcQuantityVolume n v) = Inl AttributeError"
| "CountValue (IfcQuantityWeight n v) = Inl AttributeError"
| "CountValue (IfcQuantityTime n v) = Inl AttributeError"

fun WeightValue :: "ifc_quantity \<Rightarrow> error + pyval" where
  "WeightValue (IfcQuantityWeight n v) = Inr v"
| "WeightValue (IfcQuantityArea n v) = Inl AttributeError"
| "WeightValue (IfcQuantityLength n v) = Inl AttributeError"
| "WeightValue (IfcQuantityVolume n v) = Inl AttributeError"
| "WeightValue (IfcQuantityCount n v) = Inl AttributeError"
| "WeightValue (IfcQuantityTime n v) = Inl AttributeError"

text \<open>
  Property definitions, the targets of a defines-by-properties relationship: a property
  set, an element quantity set, or another property set definition of the schema.
\<close>

datatype ifc_propdef =
    IfcPropertySet "string option" "ifc_property list"
  | IfcElementQuantity "string option" "ifc_quantity list"
  | IfcPropertySetDefinition "string option"

fun propdef_class :: "ifc_propdef \<Rightarrow> string" where
  "propdef_class (IfcPropertySet n ys) = ''IfcPropertySet''"
| "propdef_class (IfcElementQuantity n qs) = ''IfcElementQuantity''"
| "propdef_class (IfcPropertySetDefinition n) = ''IfcPropertySetDefinition''"

definition propdef_is_a :: "ifc_propdef \<Rightarrow> string \<Rightarrow> bool" where
  "propdef_is_a x t = (propdef_class x = t)"

fun propdef_Name :: "ifc_propdef \<Rightarrow> string option" where
  "propdef_Name (IfcPropertySet n ys) = n"
| "propdef_Name (IfcElementQuantity n qs) = n"
| "propdef_Name (IfcPropertySetDefinition n) = n"

fun HasProperties :: "ifc_propdef \<Rightarrow> error + ifc_property list" where
  "HasProperties (IfcPropertySet n ys) = Inr ys"
| "HasProperties (IfcElementQuantity n qs) = Inl AttributeError"
| "HasProperties (IfcPropertySetDefinition n) = Inl AttributeError"

fun Quantities :: "ifc_propdef \<Rightarrow> error + ifc_quantity list" where
  "Quantities (IfcElementQuantity n qs) = Inr qs"
| "Quantities (IfcPropertySet n ys) = Inl AttributeError"
| "Quantities (IfcPropertySetDefinition n) = Inl AttributeError"

text \<open>
  An entry of a type object's \<open>HasPropertySets\<close>: a property definition, or a
  malformed reference (say, to an entity without the attribute) on which reading
  \<open>Name\<close> raises the given fault. The \<open>try\<close> block of the type flattener is there for
  such faults.
\<close>

datatype pset_ref = PsetRef ifc_propdef | BadRef error

fun ref_Name :: "pset_ref \<Rightarrow> error + string option" where
  "ref_Name (PsetRef p) = Inr (propdef_Name p)"
| "ref_Name (BadRef e) = Inl e"

text \<open>
  A type object (the target of a defines-by-type relationship). \<open>Name\<close> and
  \<open>HasPropertySets\<close> are optional in the schema. \<open>GlobalId\<close> is mandatory there, but
  a file that leaves it out is loaded all the same, and the attribute then reads
  \<open>None\<close>.
\<close>

record ifc_type_object =
  Name :: "string option"
  GlobalId :: "string option"
  HasPropertySets :: "pset_ref list option"

datatype ifc_rel =
    IfcRelDefinesByProperties ifc_propdef
  | IfcRelDefinesByType ifc_type_object

fun rel_class :: "ifc_rel \<Rightarrow> string" where
  "rel_class (IfcRelDefinesByProperties p) = ''IfcRelDefinesByProperties''"
| "rel_class (IfcRelDefinesByType t) = ''IfcRelDefinesByType''"

definition rel_is_a :: "ifc_rel \<Rightarrow> string \<Rightarrow> bool" where
  "rel_is_a x t = (rel_class x = t)"

fun RelatingPropertyDefinition :: "ifc_rel \<Rightarrow> error + ifc_propdef" where
  "RelatingPropertyDefinition (IfcRelDefinesByProperties p) = Inr p"
| "RelatingPropertyDefinition (IfcRelDefinesByType t) = Inl AttributeError"

fun RelatingType :: "ifc_rel \<Rightarrow> error + ifc_type_object" where
  "RelatingType (IfcRelDefinesByType t) = Inr t"
| "RelatingType (IfcRelDefinesByProperties p) = Inl AttributeError"

record ifc_element =
  IsDefinedBy :: "ifc_rel list"

subsection \<open>Relation filter\<close>

text \<open>
  \<open>get_related_properties\<close> and \<open>get_related_type_definition\<close> are list
  comprehensions over \<open>ifc_instance.IsDefinedBy\<close>.
\<close>

fun related_properties_of :: "ifc_rel list \<Rightarrow> error + ifc_propdef list" where
  "related_properties_of [] = Inr []"
| "related_properties_of (x # xs) =
     (if rel_is_a x ''IfcRelDefinesByProperties''
      then bind_err (RelatingPropertyDefinition x) (\<lambda>p.
           bind_err (related_properties_of xs) (\<lambda>ps. Inr (p # ps)))
      else related_properties_of xs)"

definition get_related_properties :: "ifc_element \<Rightarrow> error + ifc_propdef list" where
  "get_related_properties ifc_instance = related_properties_of (IsDefinedBy ifc_instance)"

fun related_types_of :: "ifc_rel list \<Rightarrow> error + ifc_type_object list" where
  "related_types_of [] = Inr []"
| "related_types_of (x # xs) =
     (if rel_is_a x ''IfcRelDefinesByType''
      then bind_err (RelatingType x) (\<lambda>t.
           bind_err (related_types_of xs) (\<lambda>ts. Inr (t # ts)))
      else related_types_of xs)"

definition get_related_type_definition :: "ifc_element \<Rightarrow> error + ifc_type_object list" where
  "get_related_type_definition ifc_instance = related_types_of (IsDefinedBy ifc_instance)"

text \<open>
  \<open>get_related_property_sets\<close> and \<open>get_related_quantities\<close> are loops that append to
  a list; the second argument is the list built so far.
\<close>

fun property_sets_loop :: "ifc_rel list \<Rightarrow> ifc_propdef list \<Rightarrow> error + ifc_propdef list" where
  "property_sets_loop [] properties_list = Inr properties_list"
| "property_sets_loop (x # xs) properties_list =
     (if rel_is_a x ''IfcRelDefinesByProperties''
      then bind_err (RelatingPropertyDefinition x) (\<lambda>p.
             if propdef_is_a p ''IfcPropertySet''
             then bind_err (RelatingPropertyDefinition x) (\<lambda>p'.
                    property_sets_loop xs (properties_list @ [p']))
             else property_sets_loop xs properties_list)
      else property_sets_loop xs properties_list)"

definition get_related_property_sets :: "ifc_element \<Rightarrow> error + ifc_propdef list" where
  "get_related_property_sets ifc_instance = property_sets_loop (IsDefinedBy ifc_instance) []"

fun quantities_loop :: "ifc_rel list \<Rightarrow> ifc_propdef list \<Rightarrow> error + ifc_propdef list" where
  "quantities_loop [] quantities_list = Inr quantities_list"
| "quantities_loop (x # xs) quantities_list =
     (if rel_is_a x ''IfcRelDefinesByProperties''
      then bind_err (RelatingPropertyDefinition x) (\<lambda>p.
             if propdef_is_a p ''IfcElementQuantity''
             then bind_err (RelatingPropertyDefinition x) (\<lambda>p'.
                    quantities_loop xs (quantities_list @ [p']))
             else quantities_loop xs quantities_list)
      else quantities_loop xs quantities_list)"

definition get_related_quantities :: "ifc_element \<Rightarrow> error + ifc_propdef list" where
  "get_related_quantities ifc_instance = quantities_loop (IsDefinedBy ifc_instance) []"

subsection \<open>Value flatteners\<close>

text \<open>
  \<open>get_property_single_value\<close>. The inner loop runs over the records of a complex
  property and reads \<open>z.NominalValue\<close> of each, whatever its class.
\<close>

fun nested_loop :: "string option \<Rightarrow> ifc_property list \<Rightarrow> dict \<Rightarrow> error + dict" where
  "nested_loop xn [] d = Inr d"
| "nested_loop xn (z # zs) d =
     bind_err (NominalValue z) (\<lambda>nv.
       case nv of
         None \<Rightarrow> nested_loop xn zs d
       | Some w \<Rightarrow> nested_loop xn zs (d(PairKey xn (property_Name z) \<mapsto> w)))"

text \<open>The body of the outer loop: two \<open>if\<close> statements, one after the other.\<close>

definition property_step :: "string option \<Rightarrow> ifc_property \<Rightarrow> dict \<Rightarrow> error + dict" where
  "property_step xn y d =
     bind_err
       (if property_is_a y ''IfcPropertySingleValue''
        then bind_err (NominalValue y) (\<lambda>nv.
               case nv of
                 None \<Rightarrow> Inr d
               | Some w \<Rightarrow> Inr (d(PairKey xn (property_Name y) \<mapsto> w)))
        else Inr d)
       (\<lambda>d1. if property_is_a y ''IfcComplexProperty''
             then bind_err (property_HasProperties y) (\<lambda>zs. nested_loop xn zs d1)
             else Inr d1)"

fun property_loop :: "string option \<Rightarrow> ifc_property list \<Rightarrow> dict \<Rightarrow> error + dict" where
  "property_loop xn [] d = Inr d"
| "property_loop xn (y # ys) d = bind_err (property_step xn y d) (property_loop xn ys)"

definition get_property_single_value :: "ifc_propdef \<Rightarrow> error + dict" where
  "get_property_single_value x =
     bind_err (HasProperties x) (\<lambda>ys. property_loop (propdef_Name x) ys Map.empty)"

text \<open>
  \<open>get_type_single_value\<close>. The comprehension updates \<open>type_attr_dicts\<close> in place, so
  what it wrote before a fault is still there when the \<open>except\<close> clause has run:
  the loop returns the dictionary together with the fault, if any. The \<open>except\<close>
  clause builds its line with \<open>"..." + x.GlobalId\<close>, which raises \<open>TypeError\<close> itself
  when the identifier is \<open>None\<close>; that fault leaves the function. The second component
  of a result is the list of lines printed; a fault that leaves a function carries
  no output.
\<close>

fun type_loop :: "string option \<Rightarrow> pset_ref list \<Rightarrow> dict \<Rightarrow> dict \<times> error option" where
  "type_loop xn [] d = (d, None)"
| "type_loop xn (y # ys) d =
     (case ref_Name y of
        Inl e \<Rightarrow> (d, Some e)
      | Inr None \<Rightarrow> type_loop xn ys d
      | Inr (Some yn) \<Rightarrow>
          (case str_add ''TypeDefinition_'' xn of
             Inl e \<Rightarrow> (d, Some e)
           | Inr k \<Rightarrow> type_loop xn ys (d(StrKey k \<mapsto> PyStr yn))))"

definition get_type_single_value :: "ifc_type_object \<Rightarrow> error + dict \<times> string list" where
  "get_type_single_value x =
     (case HasPropertySets x of
        None \<Rightarrow> Inr (Map.empty, [])
      | Some [] \<Rightarrow> Inr (Map.empty, [])
      | Some (y # ys) \<Rightarrow>
          (case type_loop (Name x) (y # ys) Map.empty of
             (d, None) \<Rightarrow> Inr (d, [])
           | (d, Some e) \<Rightarrow>
               bind_err (str_add ''Type Value Exception for IfcGlobalID '' (GlobalId x))
                 (\<lambda>line. Inr (d, [line]))))"

text \<open>
  \<open>get_quantity_single_value\<close>: five \<open>if\<close> statements in a row, each reading the scalar
  field of its own kind.
\<close>

definition quantity_step :: "string option \<Rightarrow> ifc_quantity \<Rightarrow> dict \<Rightarrow> error + dict" where
  "quantity_step xn y d =
     bind_err
       (if quantity_is_a y ''IfcQuantityArea''
        then bind_err (AreaValue y) (\<lambda>v. Inr (d(PairKey xn (quantity_Name y) \<mapsto> v)))
        else Inr d) (\<lambda>d1.
     bind_err
       (if quantity_is_a y ''IfcQuantityLength''
        then bind_err (LengthValue y) (\<lambda>v. Inr (d1(PairKey xn (quantity_Name y) \<mapsto> v)))
        else Inr d1) (\<lambda>d2.
     bind_err
       (if quantity_is_a y ''IfcQuantityVolume''
        then bind_err (VolumeValue y) (\<lambda>v. Inr (d2(PairKey xn (quantity_Name y) \<mapsto> v)))
        else Inr d2) (\<lambda>d3.
     bind_err
       (if quantity_is_a y ''IfcQuantityCount''
        then bind_err (CountValue y) (\<lambda>v. Inr (d3(PairKey xn (quantity_Name y) \<mapsto> v)))
        else Inr d3) (\<lambda>d4.
       if quantity_is_a y ''IfcQuantityWeight''
       then bind_err (WeightValue y) (\<lambda>v. Inr (d4(PairKey xn (quantity_Name y) \<mapsto> v)))
       else Inr d4))))"

fun quantity_loop :: "string option \<Rightarrow> ifc_quantity list \<Rightarrow> dict \<Rightarrow> error + dict" where
  "quantity_loop xn [] d = Inr d"
| "quantity_loop xn (y # ys) d = bind_err (quantity_step xn y d) (quantity_loop xn ys)"

definition get_quantity_single_value :: "ifc_propdef \<Rightarrow> error + dict" where
  "get_quantity_single_value x =
     bind_err (Quantities x) (\<lambda>qs. quantity_loop (propdef_Name x) qs Map.empty)"

subsection \<open>Aggregators\<close>

text \<open>
  Each comprehension calls a flattener on every container and merges the result into
  \<open>pset_dict\<close> with \<open>update\<close>, which is \<open>++\<close> on maps.
\<close>

fun update_psets :: "ifc_propdef list \<Rightarrow> dict \<Rightarrow> error + dict" where
  "update_psets [] pset_dict = Inr pset_dict"
| "update_psets (x # xs) pset_dict =
     bind_err (get_property_single_value x) (\<lambda>d. update_psets xs (pset_dict ++ d))"

fun update_quantities :: "ifc_propdef list \<Rightarrow> dict \<Rightarrow> error + dict" where
  "update_quantities [] pset_dict = Inr pset_dict"
| "update_quantities (x # xs) pset_dict =
     bind_err (get_quantity_single_value x) (\<lambda>d. update_quantities xs (pset_dict ++ d))"

fun update_types ::
  "ifc_type_object list \<Rightarrow> dict \<times> string list \<Rightarrow> error + dict \<times> string list" where
  "update_types [] st = Inr st"
| "update_types (x # xs) (pset_dict, out) =
     bind_err (get_type_single_value x) (\<lambda>r.
       update_types xs (pset_dict ++ fst r, out @ snd r))"

definition get_all_quantity_data :: "ifc_element \<Rightarrow> error + dict" where
  "get_all_quantity_data ifc_instance =
     bind_err (get_related_quantities ifc_instance) (\<lambda>xs. update_quantities xs Map.empty)"

definition get_all_type_data :: "ifc_element \<Rightarrow> error + dict \<times> string list" where
  "get_all_type_data ifc_instance =
     bind_err (get_related_type_definition ifc_instance) (\<lambda>xs.
       update_types xs (Map.empty, []))"

definition get_all_pset_data :: "ifc_element \<Rightarrow> error + dict" where
  "get_all_pset_data ifc_instance =
     bind_err (get_related_property_sets ifc_instance) (\<lambda>xs. update_psets xs Map.empty)"

definition get_all_instance_data :: "ifc_element \<Rightarrow> error + dict \<times> string list" where
  "get_all_instance_data ifc_instance =
     bind_err (get_related_property_sets ifc_instance) (\<lambda>ps.
     bind_err (update_psets ps Map.empty) (\<lambda>d1.
     bind_err (get_related_quantities ifc_instance) (\<lambda>qs.
     bind_err (update_quantities qs d1) (\<lambda>d2.
     bind_err (get_related_type_definition ifc_instance) (\<lambda>ts.
       update_types ts (d2, []))))))"

subsection \<open>Reference descriptions of the results\<close>

text \<open>
  The dictionary obtained by writing a list of entries in order into an empty
  dictionary: a later entry overwrites an earlier one with the same key.
\<close>

definition dict_of :: "(key \<times> pyval) list \<Rightarrow> dict" where
  "dict_of kvs = map_of (rev kvs)"

text \<open>The targets of the defines-by-properties and defines-by-type relationships, in order.\<close>

fun properties_targets :: "ifc_rel list \<Rightarrow> ifc_propdef list" where
  "properties_targets [] = []"
| "properties_targets (IfcRelDefinesByProperties p # xs) = p # properties_targets xs"
| "properties_targets (IfcRelDefinesByType t # xs) = properties_targets xs"

fun type_targets :: "ifc_rel list \<Rightarrow> ifc_type_object list" where
  "type_targets [] = []"
| "type_targets (IfcRelDefinesByType t # xs) = t # type_targets xs"
| "type_targets (IfcRelDefinesByProperties p # xs) = type_targets xs"

fun is_property_set :: "ifc_propdef \<Rightarrow> bool" where
  "is_property_set (IfcPropertySet n ys) = True"
| "is_property_set (IfcElementQuantity n qs) = False"
| "is_property_set (IfcPropertySetDefinition n) = False"

fun is_quantity_set :: "ifc_propdef \<Rightarrow> bool" where
  "is_quantity_set (IfcElementQuantity n qs) = True"
| "is_quantity_set (IfcPropertySet n ys) = False"
| "is_quantity_set (IfcPropertySetDefinition n) = False"

text \<open>
  The scalar field that belongs to a quantity record's kind, for the five kinds the
  flattener knows, and the entry such a record stands for.
\<close>

fun quantity_value :: "ifc_quantity \<Rightarrow> pyval option" where
  "quantity_value (IfcQuantityArea n v) = Some v"
| "quantity_value (IfcQuantityLength n v) = Some v"
| "quantity_value (IfcQuantityVolume n v) = Some v"
| "quantity_value (IfcQuantityCount n v) = Some v"
| "quantity_value (IfcQuantityWeight n v) = Some v"
| "quantity_value (IfcQuantityTime n v) = None"

definition quantity_entry :: "string option \<Rightarrow> ifc_quantity \<Rightarrow> (key \<times> pyval) list" where
  "quantity_entry xn y =
     (case quantity_value y of
        None \<Rightarrow> []
      | Some v \<Rightarrow> [(PairKey xn (quantity_Name y), v)])"

definition quantity_entries :: "string option \<Rightarrow> ifc_quantity list \<Rightarrow> (key \<times> pyval) list" where
  "quantity_entries xn qs = concat (map (quantity_entry xn) qs)"

text \<open>
  What the property flattener writes. A single value with a value present stands for
  one entry; a complex property stands for the entries of the single values among
  its nested records that have a value present, under the name of the set and the
  nested record's own name; every other record stands for none.
\<close>

fun is_single_value :: "ifc_property \<Rightarrow> bool" where
  "is_single_value (IfcPropertySingleValue n v) = True"
| "is_single_value (IfcComplexProperty n zs) = False"
| "is_single_value (IfcPropertyEnumeratedValue n) = False"
| "is_single_value (IfcPropertyBoundedValue n) = False"
| "is_single_value (IfcPropertyTableValue n) = False"
| "is_single_value (IfcPropertyReferenceValue n) = False"
| "is_single_value (IfcPropertyListValue n) = False"

fun nested_entries :: "string option \<Rightarrow> ifc_property list \<Rightarrow> (key \<times> pyval) list" where
  "nested_entries xn [] = []"
| "nested_entries xn (IfcPropertySingleValue zn (Some w) # zs) =
     (PairKey xn zn, w) # nested_entries xn zs"
| "nested_entries xn (z # zs) = nested_entries xn zs"

fun property_entry :: "string option \<Rightarrow> ifc_property \<Rightarrow> (key \<times> pyval) list" where
  "property_entry xn (IfcPropertySingleValue n (Some w)) = [(PairKey xn n, w)]"
| "property_entry xn (IfcComplexProperty cn zs) = nested_entries xn zs"
| "property_entry xn y = []"

definition property_entries :: "string option \<Rightarrow> ifc_property list \<Rightarrow> (key \<times> pyval) list" where
  "property_entries xn ys = concat (map (property_entry xn) ys)"

text \<open>
  A record is well nested when, if it is a complex property, all its nested records
  are single values; a property definition is well nested when all its records are.
\<close>

fun nested_single_values :: "ifc_property \<Rightarrow> bool" where
  "nested_single_values (IfcComplexProperty n zs) = list_all is_single_value zs"
| "nested_single_values y = True"

fun well_nested :: "ifc_propdef \<Rightarrow> bool" where
  "well_nested (IfcPropertySet n ys) = list_all nested_single_values ys"
| "well_nested (IfcElementQuantity n qs) = True"
| "well_nested (IfcPropertySetDefinition n) = True"

text \<open>
  The names the type flattener reads from the nested sets before the first reference
  whose \<open>Name\<close> cannot be read, and the fault of that reference, if there is one.
\<close>

fun names_before_fault :: "pset_ref list \<Rightarrow> string list \<times> error option" where
  "names_before_fault [] = ([], None)"
| "names_before_fault (PsetRef p # ys) =
     (case names_before_fault ys of
        (ns, f) \<Rightarrow> (case propdef_Name p of None \<Rightarrow> (ns, f) | Some n \<Rightarrow> (n # ns, f)))"
| "names_before_fault (BadRef e # ys) = ([], Some e)"

definition present_names :: "ifc_propdef list \<Rightarrow> string list" where
  "present_names ps =
     concat (map (\<lambda>p. case propdef_Name p of None \<Rightarrow> [] | Some n \<Rightarrow> [n]) ps)"

section \<open>Properties of the extraction\<close>

subsection \<open>Faults and dictionaries\<close>

lemma bind_err_Inl [simp]: "bind_err (Inl e) f = Inl e"
  by (simp add: bind_err_def)

lemma bind_err_Inr [simp]: "bind_err (Inr a) f = f a"
  by (simp add: bind_err_def)

lemma bind_err_assoc: "bind_err (bind_err m f) g = bind_err m (\<lambda>a. bind_err (f a) g)"
  by (cases m) simp_all

lemma dict_of_Nil [simp]: "dict_of [] = Map.empty"
  by (simp add: dict_of_def)

lemma dict_of_append: "dict_of (as @ bs) = dict_of as ++ dict_of bs"
  by (simp add: dict_of_def map_of_append)

lemma dict_of_Cons: "d ++ dict_of ((k, v) # kvs) = d(k \<mapsto> v) ++ dict_of kvs"
  by (simp add: dict_of_def map_of_append fun_eq_iff map_add_def split: option.splits)

lemma dict_of_single: "d ++ dict_of [(k, v)] = d(k \<mapsto> v)"
  by (simp add: dict_of_def)

lemma dict_of_dom: "dom (dict_of kvs) = fst ` set kvs"
  by (simp add: dict_of_def dom_map_of_conv_image_fst)

subsection \<open>Relation filter\<close>

lemma propdef_is_a_property_set: "propdef_is_a p ''IfcPropertySet'' = is_property_set p"
  by (cases p) (simp_all add: propdef_is_a_def)

lemma propdef_is_a_quantity_set: "propdef_is_a p ''IfcElementQuantity'' = is_quantity_set p"
  by (cases p) (simp_all add: propdef_is_a_def)

lemma related_properties_of_targets: "related_properties_of xs = Inr (properties_targets xs)"
proof (induction xs)
  case Nil
  then show ?case by simp
next
  case (Cons x xs)
  then show ?case by (cases x) (simp_all add: rel_is_a_def)
qed

lemma related_types_of_targets: "related_types_of xs = Inr (type_targets xs)"
proof (induction xs)
  case Nil
  then show ?case by simp
next
  case (Cons x xs)
  then show ?case by (cases x) (simp_all add: rel_is_a_def)
qed

lemma property_sets_loop_filter:
  "property_sets_loop xs acc = Inr (acc @ filter is_property_set (properties_targets xs))"
proof (induction xs arbitrary: acc)
  case Nil
  then show ?case by simp
next
  case (Cons x xs)
  then show ?case
    by (cases x) (simp_all add: rel_is_a_def propdef_is_a_property_set)
qed

lemma quantities_loop_filter:
  "quantities_loop xs acc = Inr (acc @ filter is_quantity_set (properties_targets xs))"
proof (induction xs arbitrary: acc)
  case Nil
  then show ?case by simp
next
  case (Cons x xs)
  then show ?case
    by (cases x) (simp_all add: rel_is_a_def propdef_is_a_quantity_set)
qed

lemma get_related_property_sets_eq:
  "get_related_property_sets e = Inr (filter is_property_set (properties_targets (IsDefinedBy e)))"
  by (simp add: get_related_property_sets_def property_sets_loop_filter)

lemma get_related_quantities_eq:
  "get_related_quantities e = Inr (filter is_quantity_set (properties_targets (IsDefinedBy e)))"
  by (simp add: get_related_quantities_def quantities_loop_filter)

lemma get_related_type_definition_eq:
  "get_related_type_definition e = Inr (type_targets (IsDefinedBy e))"
  by (simp add: get_related_type_definition_def related_types_of_targets)

text \<open>
  Claim C8. \<open>get_related_property_sets\<close> returns exactly the targets of the element's
  defines-by-properties relationships that are tagged as a property set, and
  \<open>get_related_quantities\<close> exactly those tagged as an element quantity set; targets
  of other kinds and targets of defines-by-type relationships are left out, and the
  order is the order of the element's relationship collection (\<open>filter\<close> keeps it).
  Neither function raises.
\<close>

theorem related_sets_filtered_in_order:
  "get_related_property_sets e
     = Inr (filter is_property_set (properties_targets (IsDefinedBy e)))
   \<and> get_related_quantities e
     = Inr (filter is_quantity_set (properties_targets (IsDefinedBy e)))"
  by (simp add: get_related_property_sets_def get_related_quantities_def
      property_sets_loop_filter quantities_loop_filter)

theorem related_sets_filtered_in_order_witness:
  "get_related_property_sets
     \<lparr>IsDefinedBy =
        [IfcRelDefinesByProperties (IfcPropertySet (Some ''Pset_B'') []),
         IfcRelDefinesByProperties (IfcElementQuantity (Some ''BaseQuantities'') []),
         IfcRelDefinesByType
           \<lparr>Name = Some ''WallType1'', GlobalId = Some ''0YvctVUKr0kugbFTf53O9L'',
             HasPropertySets = None\<rparr>,
         IfcRelDefinesByProperties (IfcPropertySetDefinition (Some ''Lining'')),
         IfcRelDefinesByProperties (IfcPropertySet (Some ''Pset_A'') [])]\<rparr>
     = Inr [IfcPropertySet (Some ''Pset_B'') [], IfcPropertySet (Some ''Pset_A'') []]
   \<and> get_related_quantities
     \<lparr>IsDefinedBy =
        [IfcRelDefinesByProperties (IfcPropertySet (Some ''Pset_B'') []),
         IfcRelDefinesByProperties (IfcElementQuantity (Some ''BaseQuantities'') []),
         IfcRelDefinesByType
           \<lparr>Name = Some ''WallType1'', GlobalId = Some ''0YvctVUKr0kugbFTf53O9L'',
             HasPropertySets = None\<rparr>,
         IfcRelDefinesByProperties (IfcPropertySetDefinition (Some ''Lining'')),
         IfcRelDefinesByProperties (IfcPropertySet (Some ''Pset_A'') [])]\<rparr>
     = Inr [IfcElementQuantity (Some ''BaseQuantities'') []]"
  using related_sets_filtered_in_order [of
     "\<lparr>IsDefinedBy =
        [IfcRelDefinesByProperties (IfcPropertySet (Some ''Pset_B'') []),
         IfcRelDefinesByProperties (IfcElementQuantity (Some ''BaseQuantities'') []),
         IfcRelDefinesByType
           \<lparr>Name = Some ''WallType1'', GlobalId = Some ''0YvctVUKr0kugbFTf53O9L'',
             HasPropertySets = None\<rparr>,
         IfcRelDefinesByProperties (IfcPropertySetDefinition (Some ''Lining'')),
         IfcRelDefinesByProperties (IfcPropertySet (Some ''Pset_A'') [])]\<rparr>"]
  by simp

text \<open>
  Claim C9. For an element whose relationship collection is empty, the four category
  extractors each return the empty dictionary and raise nothing (and nothing is
  printed); the relation filters each return the empty list.
\<close>

theorem no_relationships_empty_maps:
  assumes "IsDefinedBy e = []"
  shows "get_all_pset_data e = Inr Map.empty
       \<and> get_all_quantity_data e = Inr Map.empty
       \<and> get_all_type_data e = Inr (Map.empty, [])
       \<and> get_all_instance_data e = Inr (Map.empty, [])
       \<and> get_related_properties e = Inr []
       \<and> get_related_property_sets e = Inr []
       \<and> get_related_quantities e = Inr []
       \<and> get_related_type_definition e = Inr []"
  using assms
  by (simp add: get_all_pset_data_def get_all_quantity_data_def get_all_type_data_def
      get_all_instance_data_def get_related_property_sets_def get_related_quantities_def
      get_related_type_definition_def get_related_properties_def)

theorem no_relationships_empty_maps_witness:
  "IsDefinedBy \<lparr>IsDefinedBy = []\<rparr> = []
   \<and> get_all_pset_data \<lparr>IsDefinedBy = []\<rparr> = Inr Map.empty
   \<and> get_all_quantity_data \<lparr>IsDefinedBy = []\<rparr> = Inr Map.empty
   \<and> get_all_type_data \<lparr>IsDefinedBy = []\<rparr> = Inr (Map.empty, [])
   \<and> get_all_instance_data \<lparr>IsDefinedBy = []\<rparr> = Inr (Map.empty, [])"
  using no_relationships_empty_maps [of "\<lparr>IsDefinedBy = []\<rparr>"] by simp

subsection \<open>Quantity flattener\<close>

lemma quantity_step_entry: "quantity_step xn y d = Inr (d ++ dict_of (quantity_entry xn y))"
  by (cases y)
    (simp_all add: quantity_step_def quantity_is_a_def quantity_entry_def dict_of_single)

lemma quantity_loop_entries:
  "quantity_loop xn qs d = Inr (d ++ dict_of (quantity_entries xn qs))"
proof (induction qs arbitrary: d)
  case Nil
  then show ?case by (simp add: quantity_entries_def)
next
  case (Cons q qs)
  have "quantity_loop xn (q # qs) d = quantity_loop xn qs (d ++ dict_of (quantity_entry xn q))"
    by (simp add: quantity_step_entry)
  also have "\<dots> = Inr ((d ++ dict_of (quantity_entry xn q)) ++ dict_of (quantity_entries xn qs))"
    by (rule Cons.IH)
  finally show ?case
    by (simp add: quantity_entries_def dict_of_append)
qed

lemma get_quantity_single_value_entries:
  "get_quantity_single_value (IfcElementQuantity xn qs) = Inr (dict_of (quantity_entries xn qs))"
  by (simp add: get_quantity_single_value_def quantity_loop_entries)

lemma quantity_entries_append:
  "quantity_entries xn (qs1 @ qs2) = quantity_entries xn qs1 @ quantity_entries xn qs2"
  by (simp add: quantity_entries_def)

lemma quantity_entries_Cons:
  "quantity_entries xn (q # qs) = quantity_entry xn q @ quantity_entries xn qs"
  by (simp add: quantity_entries_def)


text \<open>
  Claim C6. The quantity flattener returns the dictionary of the entries of its records,
  written in record order: an area, length, volume, count or weight record gives the
  key (set name, record name) with the scalar field of its own kind, and a record of
  another kind (here the time quantity) gives no key and no fault, so that removing
  it leaves the result unchanged.
\<close>

theorem quantity_dispatch_on_variant:
  "get_quantity_single_value (IfcElementQuantity xn qs) = Inr (dict_of (quantity_entries xn qs))
   \<and> quantity_entry xn (IfcQuantityArea n v) = [(PairKey xn n, v)]
   \<and> quantity_entry xn (IfcQuantityLength n v) = [(PairKey xn n, v)]
   \<and> quantity_entry xn (IfcQuantityVolume n v) = [(PairKey xn n, v)]
   \<and> quantity_entry xn (IfcQuantityCount n v) = [(PairKey xn n, v)]
   \<and> quantity_entry xn (IfcQuantityWeight n v) = [(PairKey xn n, v)]
   \<and> get_quantity_single_value (IfcElementQuantity xn (qs1 @ IfcQuantityTime n v # qs2))
       = get_quantity_single_value (IfcElementQuantity xn (qs1 @ qs2))"
  by (simp add: get_quantity_single_value_entries quantity_entries_append
      quantity_entries_Cons quantity_entry_def)

theorem quantity_dispatch_on_variant_witness:
  "get_quantity_single_value
     (IfcElementQuantity (Some ''BaseQuantities'') [IfcQuantityArea ''NetArea'' (PyFloat 12.5)])
     = Inr [PairKey (Some ''BaseQuantities'') ''NetArea'' \<mapsto> PyFloat 12.5]
   \<and> get_quantity_single_value
     (IfcElementQuantity (Some ''BaseQuantities'') [IfcQuantityCount ''NetArea'' (PyInt 4)])
     = Inr [PairKey (Some ''BaseQuantities'') ''NetArea'' \<mapsto> PyInt 4]"
  using quantity_dispatch_on_variant [of "Some ''BaseQuantities''"
      "[IfcQuantityArea ''NetArea'' (PyFloat 12.5)]" "''NetArea''" "PyFloat 12.5" "[]" "[]"]
    quantity_dispatch_on_variant [of "Some ''BaseQuantities''"
      "[IfcQuantityCount ''NetArea'' (PyInt 4)]" "''NetArea''" "PyInt 4" "[]" "[]"]
  by (simp add: quantity_entries_def dict_of_def)



subsection \<open>Property flattener\<close>

lemma is_single_valueE: "is_single_value z \<Longrightarrow> \<exists>n v. z = IfcPropertySingleValue n v"
  by (cases z) simp_all

lemma nested_loop_entries:
  "list_all is_single_value zs \<Longrightarrow>
     nested_loop xn zs d = Inr (d ++ dict_of (nested_entries xn zs))"
proof (induction zs arbitrary: d)
  case Nil
  then show ?case by simp
next
  case (Cons z zs)
  from Cons.prems have sz: "is_single_value z" and szs: "list_all is_single_value zs"
    by simp_all
  from sz obtain n v where z: "z = IfcPropertySingleValue n v"
    using is_single_valueE by blast
  show ?case
  proof (cases v)
    case None
    then show ?thesis using Cons.IH [OF szs] by (simp add: z)
  next
    case (Some w)
    have "nested_loop xn (z # zs) d = nested_loop xn zs (d(PairKey xn n \<mapsto> w))"
      by (simp add: z Some)
    also have "\<dots> = Inr (d(PairKey xn n \<mapsto> w) ++ dict_of (nested_entries xn zs))"
      by (rule Cons.IH [OF szs])
    finally show ?thesis by (simp only: z Some nested_entries.simps dict_of_Cons)
  qed
qed

text \<open>
  The inner loop makes no test of the nested record's class: on the first nested
  record that is not a single value, reading \<open>NominalValue\<close> fails.
\<close>

lemma nested_loop_fault:
  "\<not> list_all is_single_value zs \<Longrightarrow> nested_loop xn zs d = Inl AttributeError"
proof (induction zs arbitrary: d)
  case Nil
  then show ?case by simp
next
  case (Cons z zs)
  show ?case
  proof (cases z)
    case (IfcPropertySingleValue n v)
    with Cons show ?thesis by (cases v) simp_all
  qed simp_all
qed

lemma property_step_single:
  "property_step xn (IfcPropertySingleValue n nv) d =
     Inr (case nv of None \<Rightarrow> d | Some w \<Rightarrow> d(PairKey xn n \<mapsto> w))"
  by (cases nv) (simp_all add: property_step_def property_is_a_def)

lemma property_step_complex:
  "property_step xn (IfcComplexProperty cn zs) d = nested_loop xn zs d"
  by (simp add: property_step_def property_is_a_def)

lemma property_step_entry:
  "nested_single_values y \<Longrightarrow> property_step xn y d = Inr (d ++ dict_of (property_entry xn y))"
proof (cases y)
  case (IfcPropertySingleValue n nv)
  then show ?thesis
    by (cases nv) (simp_all add: property_step_single dict_of_single)
next
  case (IfcComplexProperty cn zs)
  assume "nested_single_values y"
  with IfcComplexProperty show ?thesis
    by (simp add: property_step_complex nested_loop_entries)
qed (simp_all add: property_step_def property_is_a_def)

lemma property_step_fault:
  "\<not> nested_single_values y \<Longrightarrow> property_step xn y d = Inl AttributeError"
  by (cases y) (simp_all add: property_step_complex nested_loop_fault)

lemma property_loop_append:
  "property_loop xn (ys1 @ ys2) d = bind_err (property_loop xn ys1 d) (property_loop xn ys2)"
proof (induction ys1 arbitrary: d)
  case Nil
  then show ?case by simp
next
  case (Cons y ys1)
  then show ?case by (cases "property_step xn y d") simp_all
qed

lemma property_loop_at:
  "property_loop xn (ys1 @ y # ys2) d =
     bind_err (property_loop xn ys1 d)
       (\<lambda>d1. bind_err (property_step xn y d1) (property_loop xn ys2))"
proof -
  have "property_loop xn (y # ys2) =
          (\<lambda>d1. bind_err (property_step xn y d1) (property_loop xn ys2))"
    by (rule ext) simp
  then show ?thesis by (simp only: property_loop_append)
qed

lemma property_entries_append:
  "property_entries xn (ys1 @ ys2) = property_entries xn ys1 @ property_entries xn ys2"
  by (simp add: property_entries_def)

lemma property_entries_Cons:
  "property_entries xn (y # ys) = property_entry xn y @ property_entries xn ys"
  by (simp add: property_entries_def)

lemma property_loop_entries:
  "list_all nested_single_values ys \<Longrightarrow>
     property_loop xn ys d = Inr (d ++ dict_of (property_entries xn ys))"
proof (induction ys arbitrary: d)
  case Nil
  then show ?case by (simp add: property_entries_def)
next
  case (Cons y ys)
  from Cons.prems have y: "nested_single_values y" and ys: "list_all nested_single_values ys"
    by simp_all
  have "property_loop xn (y # ys) d = property_loop xn ys (d ++ dict_of (property_entry xn y))"
    by (simp add: property_step_entry [OF y])
  also have "\<dots> = Inr ((d ++ dict_of (property_entry xn y)) ++ dict_of (property_entries xn ys))"
    by (rule Cons.IH [OF ys])
  finally show ?case by (simp add: property_entries_def dict_of_append)
qed

lemma property_loop_fault:
  "\<not> list_all nested_single_values ys \<Longrightarrow> property_loop xn ys d = Inl AttributeError"
proof (induction ys arbitrary: d)
  case Nil
  then show ?case by simp
next
  case (Cons y ys)
  show ?case
  proof (cases "nested_single_values y")
    case True
    with Cons show ?thesis by (simp add: property_step_entry)
  next
    case False
    then show ?thesis by (simp add: property_step_fault)
  qed
qed

text \<open>
  The whole flattener: the dictionary of the entries when every complex property nests
  single values only, and \<open>AttributeError\<close> otherwise.
\<close>

lemma get_property_single_value_eq:
  "get_property_single_value (IfcPropertySet xn ys) =
     (if list_all nested_single_values ys then Inr (dict_of (property_entries xn ys))
      else Inl AttributeError)"
  by (simp add: get_property_single_value_def property_loop_entries property_loop_fault)

lemma get_property_single_value_loop:
  "get_property_single_value (IfcPropertySet xn ys) = property_loop xn ys Map.empty"
  by (simp add: get_property_single_value_def)

lemma get_property_single_value_Inr:
  "get_property_single_value (IfcPropertySet xn ys) = Inr d \<Longrightarrow>
     d = dict_of (property_entries xn ys)"
  by (simp add: get_property_single_value_eq split: if_splits)

text \<open>
  How a single-value record is handled. With a value present, at any place in the
  record list of a property set, the flattener writes the key (set name, record name)
  with the wrapped value into the dictionary built from the records before it and
  goes on with the records after it; so if the flattener returns, that key is in the
  result, mapped to that value unless a later record writes the same key. A
  single-value record whose value is \<open>None\<close> contributes nothing: the result is that
  of the property set without the record. Whether the flattener returns depends on
  the other records of the set.
\<close>

lemma single_value_written_when_present:
  "get_property_single_value (IfcPropertySet xn (ys1 @ IfcPropertySingleValue n (Some w) # ys2))
     = bind_err (get_property_single_value (IfcPropertySet xn ys1))
         (\<lambda>d1. property_loop xn ys2 (d1(PairKey xn n \<mapsto> w)))
   \<and> (get_property_single_value
         (IfcPropertySet xn (ys1 @ IfcPropertySingleValue n (Some w) # ys2)) = Inr d
      \<longrightarrow> PairKey xn n \<in> dom d
         \<and> (PairKey xn n \<notin> fst ` set (property_entries xn ys2)
              \<longrightarrow> d (PairKey xn n) = Some w))
   \<and> get_property_single_value (IfcPropertySet xn (ys1 @ IfcPropertySingleValue n None # ys2))
     = get_property_single_value (IfcPropertySet xn (ys1 @ ys2))"
proof (intro conjI impI)
  show "get_property_single_value
          (IfcPropertySet xn (ys1 @ IfcPropertySingleValue n (Some w) # ys2))
     = bind_err (get_property_single_value (IfcPropertySet xn ys1))
         (\<lambda>d1. property_loop xn ys2 (d1(PairKey xn n \<mapsto> w)))"
    by (simp add: get_property_single_value_loop property_loop_at property_step_single)
next
  have "property_loop xn (ys1 @ IfcPropertySingleValue n None # ys2) Map.empty
          = bind_err (property_loop xn ys1 Map.empty) (\<lambda>d1. property_loop xn ys2 d1)"
    by (simp add: property_loop_at property_step_single)
  also have "\<dots> = property_loop xn (ys1 @ ys2) Map.empty"
    by (simp only: property_loop_append)
  finally show "get_property_single_value
                  (IfcPropertySet xn (ys1 @ IfcPropertySingleValue n None # ys2))
     = get_property_single_value (IfcPropertySet xn (ys1 @ ys2))"
    by (simp only: get_property_single_value_loop)
next
  let ?k = "PairKey xn n"
  assume "get_property_single_value
       (IfcPropertySet xn (ys1 @ IfcPropertySingleValue n (Some w) # ys2)) = Inr d"
  then have "d = dict_of (property_entries xn (ys1 @ IfcPropertySingleValue n (Some w) # ys2))"
    by (rule get_property_single_value_Inr)
  then have d: "d = (dict_of (property_entries xn ys1))(?k \<mapsto> w)
                      ++ dict_of (property_entries xn ys2)"
    by (simp add: property_entries_append property_entries_Cons dict_of_append dict_of_Cons)
  show "?k \<in> dom d"
    by (simp add: d)
  show "d ?k = Some w" if "?k \<notin> fst ` set (property_entries xn ys2)"
    using that by (simp add: d dict_of_dom map_add_dom_app_simps)
qed

text \<open>
  Claim C7. The claim has the flattener, for every property set, write the key
  (set name, record name) for each single-value record with a value present. The
  property set \<open>Pset_Foo\<close> with the record \<open>Bar\<close> = 5 alone gives that key; with a
  complex property after it that nests a table value, the inner loop reads
  \<open>NominalValue\<close> of the nested record without testing its class, the flattener
  raises \<open>AttributeError\<close>, and no dictionary is returned, so the key of \<open>Bar\<close> is
  lost, from the flattener and from \<open>get_all_pset_data\<close>.
\<close>

theorem single_value_lost_when_complex_raises:
  "get_property_single_value
     (IfcPropertySet (Some ''Pset_Foo'') [IfcPropertySingleValue ''Bar'' (Some (PyInt 5))])
     = Inr [PairKey (Some ''Pset_Foo'') ''Bar'' \<mapsto> PyInt 5]
   \<and> get_property_single_value
     (IfcPropertySet (Some ''Pset_Foo'')
        [IfcPropertySingleValue ''Bar'' (Some (PyInt 5)),
         IfcComplexProperty ''Complex1'' [IfcPropertyTableValue ''Sub1'']])
     = Inl AttributeError
   \<and> get_all_pset_data
     \<lparr>IsDefinedBy = [IfcRelDefinesByProperties
        (IfcPropertySet (Some ''Pset_Foo'')
           [IfcPropertySingleValue ''Bar'' (Some (PyInt 5)),
            IfcComplexProperty ''Complex1'' [IfcPropertyTableValue ''Sub1'']])]\<rparr>
     = Inl AttributeError"
  by (simp add: get_property_single_value_eq property_entries_def dict_of_def
      get_all_pset_data_def get_related_property_sets_eq)

text \<open>
  A complex property whose nested records are all single values is handled as the
  specification says: at any place in the record list, the flattener writes the entries
  of the nested records with a value present, one level deep, and the complex
  property's own name plays no part.
\<close>

lemma complex_property_one_level:
  assumes "list_all is_single_value zs"
  shows "get_property_single_value (IfcPropertySet xn (ys1 @ IfcComplexProperty cn zs # ys2))
     = bind_err (get_property_single_value (IfcPropertySet xn ys1))
         (\<lambda>d1. property_loop xn ys2 (d1 ++ dict_of (nested_entries xn zs)))"
  using assms
  by (simp add: get_property_single_value_loop property_loop_at property_step_complex
      nested_loop_entries)

lemma complex_property_name_unused:
  "get_property_single_value (IfcPropertySet xn (ys1 @ IfcComplexProperty cn zs # ys2))
     = get_property_single_value (IfcPropertySet xn (ys1 @ IfcComplexProperty cn' zs # ys2))"
  by (simp add: get_property_single_value_loop property_loop_at property_step_complex)

text \<open>
  Claim C1. The claim has the flattener write, for a complex property, the key
  (set name, nested record name) for each nested single-value record with a value
  present. The code reads \<open>NominalValue\<close> of every nested record without testing its
  class, as it does for the records of the set itself: with a nested record of
  another kind the flattener raises \<open>AttributeError\<close> and returns no dictionary, so the
  key of the nested single value \<open>Sub1\<close> is not produced, while without that record it
  is.
\<close>

theorem complex_with_other_nested_kind_raises:
  "get_property_single_value
     (IfcPropertySet (Some ''Pset_Foo'')
        [IfcComplexProperty ''Complex1''
           [IfcPropertySingleValue ''Sub1'' (Some (PyInt 3))]])
     = Inr [PairKey (Some ''Pset_Foo'') ''Sub1'' \<mapsto> PyInt 3]
   \<and> get_property_single_value
     (IfcPropertySet (Some ''Pset_Foo'')
        [IfcComplexProperty ''Complex1''
           [IfcPropertySingleValue ''Sub1'' (Some (PyInt 3)),
            IfcPropertyEnumeratedValue ''Sub2'']])
     = Inl AttributeError"
  by (simp add: get_property_single_value_eq property_entries_def dict_of_def)

subsection \<open>Which extractors can raise\<close>

lemma update_quantities_total:
  "list_all is_quantity_set xs \<Longrightarrow> \<exists>m. update_quantities xs d = Inr m"
proof (induction xs arbitrary: d)
  case Nil
  then show ?case by simp
next
  case (Cons x xs)
  then obtain n qs where "x = IfcElementQuantity n qs"
    by (cases x) simp_all
  with Cons show ?case by (simp add: get_quantity_single_value_entries)
qed

lemma get_all_quantity_data_total: "\<exists>d. get_all_quantity_data e = Inr d"
  by (simp add: get_all_quantity_data_def get_related_quantities_eq update_quantities_total
      list_all_iff)

lemma update_psets_total:
  "list_all is_property_set xs \<Longrightarrow> list_all well_nested xs \<Longrightarrow>
     \<exists>m. update_psets xs d = Inr m"
proof (induction xs arbitrary: d)
  case Nil
  then show ?case by simp
next
  case (Cons x xs)
  then obtain n ys where "x = IfcPropertySet n ys"
    by (cases x) simp_all
  with Cons show ?case by (simp add: get_property_single_value_eq)
qed

lemma get_all_pset_data_total:
  "list_all well_nested (properties_targets (IsDefinedBy e)) \<Longrightarrow>
     \<exists>d. get_all_pset_data e = Inr d"
  by (simp add: get_all_pset_data_def get_related_property_sets_eq update_psets_total
      list_all_iff)

text \<open>
  Claim C2. The claim is that no extractor but the type flattener raises on an element
  of a loaded model. The relation filters and the quantity extractors never raise
  (\<open>get_related_property_sets_eq\<close>, \<open>get_all_quantity_data_total\<close>), and the property
  extractors do not raise on well-nested property sets (\<open>get_all_pset_data_total\<close>).
  But the schema lets a complex property nest properties of any kind, and on an
  element with a property set in which a complex property nests another complex
  property, \<open>get_all_pset_data\<close> and \<open>get_all_instance_data\<close> raise \<open>AttributeError\<close>.
\<close>

theorem nested_complex_property_raises:
  "get_all_pset_data
     \<lparr>IsDefinedBy = [IfcRelDefinesByProperties
        (IfcPropertySet (Some ''Pset_Foo'')
           [IfcPropertySingleValue ''Bar'' (Some (PyInt 5)),
            IfcComplexProperty ''Complex1''
              [IfcComplexProperty ''Complex2''
                 [IfcPropertySingleValue ''Sub1'' (Some (PyInt 3))]]])]\<rparr>
     = Inl AttributeError
   \<and> get_all_instance_data
     \<lparr>IsDefinedBy = [IfcRelDefinesByProperties
        (IfcPropertySet (Some ''Pset_Foo'')
           [IfcPropertySingleValue ''Bar'' (Some (PyInt 5)),
            IfcComplexProperty ''Complex1''
              [IfcComplexProperty ''Complex2''
                 [IfcPropertySingleValue ''Sub1'' (Some (PyInt 3))]]])]\<rparr>
     = Inl AttributeError"
  by (simp add: get_all_pset_data_def get_all_instance_data_def get_related_property_sets_eq
      get_property_single_value_eq)

subsection \<open>Type flattener\<close>

lemma type_loop_step_named:
  "propdef_Name p = Some n \<Longrightarrow>
   type_loop (Some tn) (PsetRef p # ys) d =
     type_loop (Some tn) ys (d(StrKey (''TypeDefinition_'' @ tn) \<mapsto> PyStr n))"
  by (simp del: append.simps)

lemma type_loop_step_unnamed:
  "propdef_Name p = Some n \<Longrightarrow> type_loop None (PsetRef p # ys) d = (d, Some TypeError)"
  by simp

lemma type_loop_step_skip:
  "propdef_Name p = None \<Longrightarrow> type_loop xn (PsetRef p # ys) d = type_loop xn ys d"
  by simp

lemma type_loop_step_bad: "type_loop xn (BadRef e # ys) d = (d, Some e)"
  by simp

text \<open>
  With a type name the loop writes one key again and again, so what is left is the
  last name read before the fault, if any name was read.
\<close>

lemma type_loop_named:
  "names_before_fault ys = (ns, f) \<Longrightarrow>
   type_loop (Some tn) ys d =
     ((if ns = [] then d else d(StrKey (''TypeDefinition_'' @ tn) \<mapsto> PyStr (last ns))), f)"
proof -
  define k where "k = StrKey (''TypeDefinition_'' @ tn)"
  have step: "type_loop (Some tn) (PsetRef p # ys) d = type_loop (Some tn) ys (d(k \<mapsto> PyStr n))"
    if "propdef_Name p = Some n" for p n ys d
    unfolding k_def using that by (rule type_loop_step_named)
  have "names_before_fault ys = (ns, f) \<Longrightarrow>
        type_loop (Some tn) ys d = ((if ns = [] then d else d(k \<mapsto> PyStr (last ns))), f)"
  proof (induction ys arbitrary: d ns f)
    case Nil
    then show ?case by simp
  next
    case (Cons y ys)
    show ?case
    proof (cases y)
      case (BadRef e)
      with Cons.prems show ?thesis by (simp only: type_loop_step_bad) simp
    next
      case (PsetRef p)
      obtain ns' f' where r: "names_before_fault ys = (ns', f')"
        by (cases "names_before_fault ys")
      show ?thesis
      proof (cases "propdef_Name p")
        case None
        with Cons.prems PsetRef r have "ns = ns'" "f = f'" by simp_all
        with Cons.IH [OF r] None PsetRef show ?thesis
          by (simp only: type_loop_step_skip)
      next
        case (Some n)
        with Cons.prems PsetRef r have e: "ns = n # ns'" "f = f'" by simp_all
        have "type_loop (Some tn) (y # ys) d = type_loop (Some tn) ys (d(k \<mapsto> PyStr n))"
          unfolding PsetRef by (rule step [OF Some])
        also have "\<dots> = ((if ns' = [] then d(k \<mapsto> PyStr n)
                            else (d(k \<mapsto> PyStr n))(k \<mapsto> PyStr (last ns'))), f')"
          by (rule Cons.IH [OF r])
        also have "\<dots> = ((if ns = [] then d else d(k \<mapsto> PyStr (last ns))), f)"
          by (simp add: e)
        finally show ?thesis .
      qed
    qed
  qed
  then show "names_before_fault ys = (ns, f) \<Longrightarrow>
   type_loop (Some tn) ys d =
     ((if ns = [] then d else d(StrKey (''TypeDefinition_'' @ tn) \<mapsto> PyStr (last ns))), f)"
    unfolding k_def .
qed

text \<open>
  Without a type name the first name read makes the string addition fail, before
  anything is written.
\<close>

lemma type_loop_unnamed:
  "names_before_fault ys = (ns, f) \<Longrightarrow>
   type_loop None ys d = (d, if ns = [] then f else Some TypeError)"
proof (induction ys arbitrary: d ns f)
  case Nil
  then show ?case by simp
next
  case (Cons y ys)
  show ?case
  proof (cases y)
    case (BadRef e)
    with Cons.prems show ?thesis by simp
  next
    case (PsetRef p)
    obtain ns' f' where r: "names_before_fault ys = (ns', f')"
      by (cases "names_before_fault ys")
    show ?thesis
    proof (cases "propdef_Name p")
      case None
      with Cons.prems PsetRef r have "ns = ns'" "f = f'" by simp_all
      with Cons.IH [OF r] None PsetRef show ?thesis
        by (simp only: type_loop_step_skip)
    next
      case (Some n)
      with Cons.prems PsetRef r have "ns = n # ns'" "f = f'" by simp_all
      with Some PsetRef show ?thesis
        by (simp only: type_loop_step_unnamed) simp
    qed
  qed
qed

lemma get_type_single_value_Some:
  "HasPropertySets x = Some refs \<Longrightarrow>
   get_type_single_value x =
     (case type_loop (Name x) refs Map.empty of
        (d, None) \<Rightarrow> Inr (d, [])
      | (d, Some e) \<Rightarrow>
          bind_err (str_add ''Type Value Exception for IfcGlobalID '' (GlobalId x))
            (\<lambda>line. Inr (d, [line])))"
  by (cases refs) (simp_all add: get_type_single_value_def)

text \<open>
  The whole type flattener on a type with nested entries: without a fault it returns
  what the loop wrote; with one, the \<open>except\<close> clause builds the line from the
  \<open>GlobalId\<close> and returns what the loop wrote before the fault.
\<close>

lemma get_type_single_value_eq:
  assumes "HasPropertySets x = Some refs" and "names_before_fault refs = (ns, f)"
  shows "get_type_single_value x =
     (if f = None \<and> (Name x \<noteq> None \<or> ns = [])
      then Inr ((case Name x of
                   None \<Rightarrow> Map.empty
                 | Some tn \<Rightarrow>
                     if ns = [] then Map.empty
                     else [StrKey (''TypeDefinition_'' @ tn) \<mapsto> PyStr (last ns)]), [])
      else bind_err (str_add ''Type Value Exception for IfcGlobalID '' (GlobalId x))
             (\<lambda>line. Inr ((case Name x of
                   None \<Rightarrow> Map.empty
                 | Some tn \<Rightarrow>
                     if ns = [] then Map.empty
                     else [StrKey (''TypeDefinition_'' @ tn) \<mapsto> PyStr (last ns)]), [line])))"
proof (cases "Name x")
  case None
  then show ?thesis
    by (cases f)
      (simp_all add: get_type_single_value_Some [OF assms(1)] type_loop_unnamed [OF assms(2)])
next
  case (Some tn)
  then show ?thesis
    by (cases f)
      (simp_all add: get_type_single_value_Some [OF assms(1)] type_loop_named [OF assms(2)])
qed

text \<open>
  When a fault is caught and the \<open>GlobalId\<close> is \<open>None\<close>, the \<open>except\<close> clause raises
  \<open>TypeError\<close> and the flattener returns nothing.
\<close>

lemma get_type_single_value_handler_fault:
  assumes "HasPropertySets x = Some refs" and "names_before_fault refs = (ns, f)"
    and "GlobalId x = None" and "f \<noteq> None \<or> (Name x = None \<and> ns \<noteq> [])"
  shows "get_type_single_value x = Inl TypeError"
  using assms(3,4) by (auto simp: get_type_single_value_eq [OF assms(1,2)])

lemma names_before_fault_PsetRef:
  "names_before_fault (map PsetRef ps) = (present_names ps, None)"
  by (induction ps) (simp_all add: present_names_def split: option.splits)

lemma update_types_single: "update_types [x] (Map.empty, []) = get_type_single_value x"
  by (cases "get_type_single_value x") simp_all




text \<open>
  Claim C4, as stated, fails: the claim has the type flattener write the key for each
  nested property set whose name is present, for every type object. The type's own
  name is optional, and for a type without a name that nests the sets \<open>Pset_A\<close> and
  \<open>Pset_B\<close> the string addition \<open>"TypeDefinition_" + x.Name\<close> raises \<open>TypeError\<close> at the
  first set: the fault is caught, the line is printed, and no key is written, by the
  flattener and by \<open>get_all_type_data\<close>. And for a named type, a nested entry whose
  name cannot be read ends the loop: the named sets after it are not reached, so the
  last named set does not win.
\<close>

theorem unnamed_type_writes_no_key_counterexample:
  "get_type_single_value
      \<lparr>Name = None, GlobalId = Some ''0YvctVUKr0kugbFTf53O9L'',
       HasPropertySets = Some [PsetRef (IfcPropertySet (Some ''Pset_A'') []),
                               PsetRef (IfcPropertySet (Some ''Pset_B'') [])]\<rparr>
     = Inr (Map.empty, [''Type Value Exception for IfcGlobalID 0YvctVUKr0kugbFTf53O9L''])
   \<and> get_all_type_data
      \<lparr>IsDefinedBy = [IfcRelDefinesByType
        \<lparr>Name = None, GlobalId = Some ''0YvctVUKr0kugbFTf53O9L'',
         HasPropertySets = Some [PsetRef (IfcPropertySet (Some ''Pset_A'') []),
                                 PsetRef (IfcPropertySet (Some ''Pset_B'') [])]\<rparr>]\<rparr>
     = Inr (Map.empty, [''Type Value Exception for IfcGlobalID 0YvctVUKr0kugbFTf53O9L''])
   \<and> get_type_single_value
      \<lparr>Name = Some ''WallType1'', GlobalId = Some ''0YvctVUKr0kugbFTf53O9L'',
       HasPropertySets = Some [PsetRef (IfcPropertySet (Some ''Pset_A'') []),
                               BadRef AttributeError,
                               PsetRef (IfcPropertySet (Some ''Pset_B'') [])]\<rparr>
     = Inr ([StrKey ''TypeDefinition_WallType1'' \<mapsto> PyStr ''Pset_A''],
            [''Type Value Exception for IfcGlobalID 0YvctVUKr0kugbFTf53O9L''])"
  by (simp add: get_type_single_value_def get_all_type_data_def
      get_related_type_definition_eq)

text \<open>
  Claim C4, amended. Take a type object whose nested entries are property
  definitions, so that their names can be read. If the type's own name is present,
  the type flattener writes, for each nested set whose name is present, the one key
  \<open>TypeDefinition_\<close> + type name with the set's name, so the result holds that key
  mapped to the name of the last named set (and is empty when no set is named), and
  nothing is printed. If the type's own name is \<open>None\<close>, no key is written: with no
  named set the result is empty and nothing is printed, and with a named set the
  fault of building the key is caught and the result is empty with the line printed
  (the \<open>except\<close> clause fails itself when the \<open>GlobalId\<close> is \<open>None\<close> as well).
  \<open>get_all_type_data\<close> of an element with that one type returns the same. The witness
  is the type \<open>WallType1\<close> with the sets \<open>Pset_A\<close> then \<open>Pset_B\<close>.
\<close>

theorem type_key_last_set_wins:
  assumes "HasPropertySets x = Some (map PsetRef ps)"
  shows "(Name x = Some tn \<longrightarrow>
            get_type_single_value x =
              Inr ((if present_names ps = [] then Map.empty
                    else [StrKey (''TypeDefinition_'' @ tn)
                            \<mapsto> PyStr (last (present_names ps))]), []))
       \<and> (Name x = None \<longrightarrow>
            get_type_single_value x =
              (if present_names ps = [] then Inr (Map.empty, [])
               else bind_err (str_add ''Type Value Exception for IfcGlobalID '' (GlobalId x))
                      (\<lambda>line. Inr (Map.empty, [line]))))
       \<and> (type_targets (IsDefinedBy e) = [x] \<longrightarrow>
            get_all_type_data e = get_type_single_value x)"
proof (intro conjI impI)
  note eq = get_type_single_value_eq [OF assms names_before_fault_PsetRef]
  show "get_type_single_value x =
          Inr ((if present_names ps = [] then Map.empty
                else [StrKey (''TypeDefinition_'' @ tn) \<mapsto> PyStr (last (present_names ps))]), [])"
    if "Name x = Some tn"
    using that by (simp only: eq) simp
  show "get_type_single_value x =
          (if present_names ps = [] then Inr (Map.empty, [])
           else bind_err (str_add ''Type Value Exception for IfcGlobalID '' (GlobalId x))
                  (\<lambda>line. Inr (Map.empty, [line])))"
    if "Name x = None"
    using that by (simp only: eq) simp
  show "get_all_type_data e = get_type_single_value x"
    if "type_targets (IsDefinedBy e) = [x]"
    using that
    by (simp add: get_all_type_data_def get_related_type_definition_eq update_types_single
        del: update_types.simps)
qed

theorem type_key_last_set_wins_witness:
  "HasPropertySets
       \<lparr>Name = Some ''WallType1'', GlobalId = Some ''0YvctVUKr0kugbFTf53O9L'',
         HasPropertySets = Some (map PsetRef [IfcPropertySet (Some ''Pset_A'') [],
                                              IfcPropertySet (Some ''Pset_B'') []])\<rparr>
     = Some (map PsetRef [IfcPropertySet (Some ''Pset_A'') [],
                          IfcPropertySet (Some ''Pset_B'') []])
   \<and> get_type_single_value
       \<lparr>Name = Some ''WallType1'', GlobalId = Some ''0YvctVUKr0kugbFTf53O9L'',
         HasPropertySets = Some (map PsetRef [IfcPropertySet (Some ''Pset_A'') [],
                                              IfcPropertySet (Some ''Pset_B'') []])\<rparr>
     = Inr ([StrKey ''TypeDefinition_WallType1'' \<mapsto> PyStr ''Pset_B''], [])
   \<and> get_all_type_data
       \<lparr>IsDefinedBy = [IfcRelDefinesByType
         \<lparr>Name = Some ''WallType1'', GlobalId = Some ''0YvctVUKr0kugbFTf53O9L'',
           HasPropertySets = Some (map PsetRef [IfcPropertySet (Some ''Pset_A'') [],
                                                IfcPropertySet (Some ''Pset_B'') []])\<rparr>]\<rparr>
     = Inr ([StrKey ''TypeDefinition_WallType1'' \<mapsto> PyStr ''Pset_B''], [])
   \<and> get_type_single_value
       \<lparr>Name = None, GlobalId = Some ''0YvctVUKr0kugbFTf53O9L'',
         HasPropertySets = Some (map PsetRef [IfcPropertySet None [],
                                              IfcPropertySet (Some ''Pset_B'') []])\<rparr>
     = Inr (Map.empty, [''Type Value Exception for IfcGlobalID 0YvctVUKr0kugbFTf53O9L''])"
  using type_key_last_set_wins [of
      "\<lparr>Name = Some ''WallType1'', GlobalId = Some ''0YvctVUKr0kugbFTf53O9L'',
         HasPropertySets = Some (map PsetRef [IfcPropertySet (Some ''Pset_A'') [],
                                              IfcPropertySet (Some ''Pset_B'') []])\<rparr>"
      "[IfcPropertySet (Some ''Pset_A'') [], IfcPropertySet (Some ''Pset_B'') []]"
      "''WallType1''"
      "\<lparr>IsDefinedBy = [IfcRelDefinesByType
         \<lparr>Name = Some ''WallType1'', GlobalId = Some ''0YvctVUKr0kugbFTf53O9L'',
           HasPropertySets = Some (map PsetRef [IfcPropertySet (Some ''Pset_A'') [],
                                                IfcPropertySet (Some ''Pset_B'') []])\<rparr>]\<rparr>"]
    type_key_last_set_wins [of
      "\<lparr>Name = None, GlobalId = Some ''0YvctVUKr0kugbFTf53O9L'',
         HasPropertySets = Some (map PsetRef [IfcPropertySet None [],
                                              IfcPropertySet (Some ''Pset_B'') []])\<rparr>"
      "[IfcPropertySet None [], IfcPropertySet (Some ''Pset_B'') []]"
      "''WallType1''"
      "\<lparr>IsDefinedBy = []\<rparr>"]
  by (simp add: present_names_def)

subsection \<open>Aggregators\<close>

lemma update_psets_acc:
  "update_psets xs d = bind_err (update_psets xs Map.empty) (\<lambda>m. Inr (d ++ m))"
proof (induction xs arbitrary: d)
  case Nil
  then show ?case by simp
next
  case (Cons x xs)
  show ?case
  proof (cases "get_property_single_value x")
    case (Inl e)
    then show ?thesis by simp
  next
    case (Inr dx)
    have "update_psets (x # xs) d = update_psets xs (d ++ dx)"
      by (simp add: Inr)
    also have "\<dots> = bind_err (update_psets xs Map.empty) (\<lambda>m. Inr ((d ++ dx) ++ m))"
      by (rule Cons.IH)
    also have "\<dots> = bind_err (bind_err (update_psets xs Map.empty) (\<lambda>m. Inr (dx ++ m)))
                         (\<lambda>m. Inr (d ++ m))"
      by (simp add: bind_err_assoc)
    also have "\<dots> = bind_err (update_psets xs dx) (\<lambda>m. Inr (d ++ m))"
      by (simp only: Cons.IH [of dx, symmetric])
    finally show ?thesis by (simp add: Inr)
  qed
qed

lemma update_quantities_acc:
  "update_quantities xs d = bind_err (update_quantities xs Map.empty) (\<lambda>m. Inr (d ++ m))"
proof (induction xs arbitrary: d)
  case Nil
  then show ?case by simp
next
  case (Cons x xs)
  show ?case
  proof (cases "get_quantity_single_value x")
    case (Inl e)
    then show ?thesis by simp
  next
    case (Inr dx)
    have "update_quantities (x # xs) d = update_quantities xs (d ++ dx)"
      by (simp add: Inr)
    also have "\<dots> = bind_err (update_quantities xs Map.empty) (\<lambda>m. Inr ((d ++ dx) ++ m))"
      by (rule Cons.IH)
    also have "\<dots> = bind_err (bind_err (update_quantities xs Map.empty) (\<lambda>m. Inr (dx ++ m)))
                         (\<lambda>m. Inr (d ++ m))"
      by (simp add: bind_err_assoc)
    also have "\<dots> = bind_err (update_quantities xs dx) (\<lambda>m. Inr (d ++ m))"
      by (simp only: Cons.IH [of dx, symmetric])
    finally show ?thesis by (simp add: Inr)
  qed
qed

lemma update_types_acc:
  "update_types ts (d, out) =
     bind_err (update_types ts (Map.empty, [])) (\<lambda>r. Inr (d ++ fst r, out @ snd r))"
proof (induction ts arbitrary: d out)
  case Nil
  then show ?case by simp
next
  case (Cons t ts)
  show ?case
  proof (cases "get_type_single_value t")
    case (Inl e)
    then show ?thesis by simp
  next
    case (Inr r)
    have "update_types (t # ts) (d, out) = update_types ts (d ++ fst r, out @ snd r)"
      by (simp add: Inr)
    also have "\<dots> = bind_err (update_types ts (Map.empty, []))
                        (\<lambda>r'. Inr ((d ++ fst r) ++ fst r', (out @ snd r) @ snd r'))"
      by (rule Cons.IH)
    also have "\<dots> = bind_err (bind_err (update_types ts (Map.empty, []))
                                  (\<lambda>r'. Inr (fst r ++ fst r', snd r @ snd r')))
                         (\<lambda>r'. Inr (d ++ fst r', out @ snd r'))"
      by (simp add: bind_err_assoc)
    also have "\<dots> = bind_err (update_types ts (fst r, snd r))
                         (\<lambda>r'. Inr (d ++ fst r', out @ snd r'))"
      by (simp only: Cons.IH [of "fst r" "snd r", symmetric])
    finally show ?thesis by (simp add: Inr)
  qed
qed

text \<open>
  Claim C5. \<open>get_all_instance_data\<close> of an element is the key-wise union of the results
  of \<open>get_all_pset_data\<close>, \<open>get_all_quantity_data\<close> and \<open>get_all_type_data\<close> of that
  element, merged in this order, a later category overwriting an earlier one on a
  common key (\<open>++\<close> on maps); it raises when one of them does, and prints what
  \<open>get_all_type_data\<close> prints.
\<close>

theorem instance_data_is_ordered_union:
  "get_all_instance_data e =
     bind_err (get_all_pset_data e) (\<lambda>p.
     bind_err (get_all_quantity_data e) (\<lambda>q.
     bind_err (get_all_type_data e) (\<lambda>t.
       Inr (p ++ q ++ fst t, snd t))))"
proof -
  let ?ps = "filter is_property_set (properties_targets (IsDefinedBy e))"
  let ?qs = "filter is_quantity_set (properties_targets (IsDefinedBy e))"
  let ?ts = "type_targets (IsDefinedBy e)"
  have types: "update_types ?ts (d2, []) =
          bind_err (update_types ?ts (Map.empty, [])) (\<lambda>t. Inr (d2 ++ fst t, snd t))" for d2
    by (subst update_types_acc) simp
  have "get_all_instance_data e =
          bind_err (update_psets ?ps Map.empty) (\<lambda>d1.
          bind_err (update_quantities ?qs d1) (\<lambda>d2. update_types ?ts (d2, [])))"
    by (simp add: get_all_instance_data_def get_related_property_sets_eq
        get_related_quantities_eq get_related_type_definition_eq)
  also have "\<dots> =
          bind_err (update_psets ?ps Map.empty) (\<lambda>p.
          bind_err (update_quantities ?qs Map.empty) (\<lambda>q.
          bind_err (update_types ?ts (Map.empty, [])) (\<lambda>t.
            Inr (p ++ q ++ fst t, snd t))))"
  proof -
    have "bind_err (update_quantities ?qs d1) (\<lambda>d2. update_types ?ts (d2, [])) =
          bind_err (update_quantities ?qs Map.empty) (\<lambda>q.
          bind_err (update_types ?ts (Map.empty, [])) (\<lambda>t.
            Inr (d1 ++ q ++ fst t, snd t)))" for d1
    proof -
      have "bind_err (update_quantities ?qs d1) (\<lambda>d2. update_types ?ts (d2, [])) =
            bind_err (update_quantities ?qs Map.empty) (\<lambda>q. update_types ?ts (d1 ++ q, []))"
        by (subst update_quantities_acc) (simp add: bind_err_assoc)
      also have "\<dots> = bind_err (update_quantities ?qs Map.empty) (\<lambda>q.
            bind_err (update_types ?ts (Map.empty, [])) (\<lambda>t.
              Inr (d1 ++ q ++ fst t, snd t)))"
      proof (cases "update_quantities ?qs Map.empty")
        case (Inl err)
        then show ?thesis by simp
      next
        case (Inr q)
        show ?thesis unfolding Inr bind_err_Inr by (rule types)
      qed
      finally show ?thesis .
    qed
    then show ?thesis by simp
  qed
  finally show ?thesis
    by (simp add: get_all_pset_data_def get_all_quantity_data_def get_all_type_data_def
        get_related_property_sets_eq get_related_quantities_eq get_related_type_definition_eq)
qed

theorem instance_data_is_ordered_union_witness:
  "get_all_instance_data
     \<lparr>IsDefinedBy =
        [IfcRelDefinesByProperties
           (IfcElementQuantity (Some ''Common'') [IfcQuantityArea ''Size'' (PyFloat 2)]),
         IfcRelDefinesByType
           \<lparr>Name = Some ''WallType1'', GlobalId = Some ''0YvctVUKr0kugbFTf53O9L'',
             HasPropertySets = Some [PsetRef (IfcPropertySet (Some ''Pset_A'') [])]\<rparr>,
         IfcRelDefinesByProperties
           (IfcPropertySet (Some ''Common'')
              [IfcPropertySingleValue ''Size'' (Some (PyInt 1)),
               IfcPropertySingleValue ''Mark'' (Some (PyStr ''W1''))])]\<rparr>
   = Inr ([PairKey (Some ''Common'') ''Size'' \<mapsto> PyFloat 2,
           PairKey (Some ''Common'') ''Mark'' \<mapsto> PyStr ''W1'',
           StrKey ''TypeDefinition_WallType1'' \<mapsto> PyStr ''Pset_A''], [])"
  using instance_data_is_ordered_union [of
     "\<lparr>IsDefinedBy =
        [IfcRelDefinesByProperties
           (IfcElementQuantity (Some ''Common'') [IfcQuantityArea ''Size'' (PyFloat 2)]),
         IfcRelDefinesByType
           \<lparr>Name = Some ''WallType1'', GlobalId = Some ''0YvctVUKr0kugbFTf53O9L'',
             HasPropertySets = Some [PsetRef (IfcPropertySet (Some ''Pset_A'') [])]\<rparr>,
         IfcRelDefinesByProperties
           (IfcPropertySet (Some ''Common'')
              [IfcPropertySingleValue ''Size'' (Some (PyInt 1)),
               IfcPropertySingleValue ''Mark'' (Some (PyStr ''W1''))])]\<rparr>"]
  by (simp add: get_all_pset_data_def get_all_quantity_data_def get_all_type_data_def
      get_related_property_sets_eq get_related_quantities_eq get_related_type_definition_eq
      get_property_single_value_eq get_quantity_single_value_entries
      property_entries_def quantity_entries_def quantity_entry_def dict_of_def
      get_type_single_value_def fun_eq_iff)

end
